theory Spec2Isabelle
  imports Complex_Main "HOL-Library.Multiset"
begin

section \<open>Time values\<close>

text \<open>
  The overlap utilities (\<^verbatim>\<open>utils/timeUtils\<close>) accept an endpoint that is either a
  JavaScript \<^verbatim>\<open>Date\<close> or a Firestore \<^verbatim>\<open>Timestamp\<close>. A \<^verbatim>\<open>Date\<close> is its
  time value, an integral number of milliseconds since the epoch; of a \<^verbatim>\<open>Timestamp\<close>
  the code reads the \<^verbatim>\<open>seconds\<close> field only. Invalid dates (time value NaN) are not
  modelled: no range with \<^verbatim>\<open>start < end\<close> has one.
\<close>

datatype jsTime =
    JSDate int
  | Timestamp (seconds: int) (nanoseconds: int)

record 't TimeRange =
  startTime :: 't
  endTime :: 't

record 't Session = "'t TimeRange" +
  session_id :: string
  userId :: string

text \<open>
  \<^verbatim>\<open>x instanceof Date ? x : new Date(x.seconds * 1000)\<close>, as a time value.
\<close>

fun toDate :: "jsTime \<Rightarrow> int" where
  "toDate (JSDate ms) = ms"
| "toDate (Timestamp s ns) = s * 1000"

section \<open>Interval overlap\<close>

text \<open>
  The current \<^verbatim>\<open>hasOverlap(range1, range2)\<close>: both ranges are converted to dates and
  compared with the single half-open test.
\<close>

definition hasOverlap :: "jsTime TimeRange \<Rightarrow> jsTime TimeRange \<Rightarrow> bool" where
  "hasOverlap range1 range2 =
     (let start1 = toDate (startTime range1);
          end1 = toDate (endTime range1);
          start2 = toDate (startTime range2);
          end2 = toDate (endTime range2)
      in start1 < end2 \<and> start2 < end1)"

text \<open>
  \<^verbatim>\<open>checkForSessionOverlap(userId, startTime, endTime, excludeSessionId?)\<close>. The query
  against the document store is modelled by its result: the first argument is the content
  of the \<^verbatim>\<open>workSessions\<close> collection, and the query keeps the documents of the user.
  The optional \<^verbatim>\<open>excludeSessionId\<close> is tested for truthiness, so the empty string
  excludes nothing, as a missing argument does.
\<close>

definition checkForSessionOverlap ::
  "jsTime Session list \<Rightarrow> string \<Rightarrow> int \<Rightarrow> int \<Rightarrow> string option \<Rightarrow> bool" where
  "checkForSessionOverlap workSessions uid newStart newEnd excludeSessionId =
     (let querySnapshot = filter (\<lambda>doc. userId doc = uid) workSessions;
          sessions = filter (\<lambda>doc.
              (case excludeSessionId of
                 None \<Rightarrow> True
               | Some x \<Rightarrow> if x \<noteq> [] then session_id doc \<noteq> x else True)) querySnapshot;
          newSession = \<lparr>startTime = JSDate newStart, endTime = JSDate newEnd\<rparr>
      in list_ex (\<lambda>session. hasOverlap newSession
            \<lparr>startTime = startTime session, endTime = endTime session\<rparr>) sessions)"

text \<open>
  The earlier revision of the same module: \<^verbatim>\<open>hasOverlap(sessions, newSession)\<close> with the
  three-clause test, and \<^verbatim>\<open>checkForOverlap\<close> in front of it. It declares the endpoints
  of a new session as \<^verbatim>\<open>Date | { seconds: number }\<close> and those of a stored session as
  \<^verbatim>\<open>{ seconds: number }\<close>, and it applies the relational operators to these objects
  as they are, without converting them.
\<close>

datatype jsEndpoint =
    DateObject int
  | SecondsObject int

text \<open>
  The comparison that underlies the four relational operators of JavaScript (IsLessThan
  of the language specification); \<open>None\<close> is its result \<^verbatim>\<open>undefined\<close>. Both operands
  are first turned into primitive values. A \<^verbatim>\<open>Date\<close> gives its time value, a number. An
  object \<^verbatim>\<open>{ seconds: n }\<close> has no primitive value of its own and gives the string
  \<^verbatim>\<open>[object Object]\<close>, whatever \<open>n\<close> is. Two strings are compared as strings, and here
  they are equal; a number against that string is a number against NaN, and the result is
  undefined.
\<close>

fun isLessThan :: "jsEndpoint \<Rightarrow> jsEndpoint \<Rightarrow> bool option" where
  "isLessThan (DateObject x) (DateObject y) = Some (x < y)"
| "isLessThan (SecondsObject x) (SecondsObject y) = Some False"
| "isLessThan (DateObject x) (SecondsObject y) = None"
| "isLessThan (SecondsObject x) (DateObject y) = None"

text \<open>
  \<^verbatim>\<open>x < y\<close>, \<^verbatim>\<open>x > y\<close>, \<^verbatim>\<open>x <= y\<close> and \<^verbatim>\<open>x >= y\<close>: the first two are true when the
  comparison (of \<open>x\<close> with \<open>y\<close>, of \<open>y\<close> with \<open>x\<close>) is true, the last two when the
  comparison (of \<open>y\<close> with \<open>x\<close>, of \<open>x\<close> with \<open>y\<close>) is false; an undefined comparison
  makes each of them false.
\<close>

definition js_less :: "jsEndpoint \<Rightarrow> jsEndpoint \<Rightarrow> bool" where
  "js_less x y = (isLessThan x y = Some True)"

definition js_greater :: "jsEndpoint \<Rightarrow> jsEndpoint \<Rightarrow> bool" where
  "js_greater x y = (isLessThan y x = Some True)"

definition js_less_eq :: "jsEndpoint \<Rightarrow> jsEndpoint \<Rightarrow> bool" where
  "js_less_eq x y = (isLessThan y x = Some False)"

definition js_greater_eq :: "jsEndpoint \<Rightarrow> jsEndpoint \<Rightarrow> bool" where
  "js_greater_eq x y = (isLessThan x y = Some False)"

definition hasOverlap_sessions :: "jsEndpoint Session list \<Rightarrow> jsEndpoint TimeRange \<Rightarrow> bool" where
  "hasOverlap_sessions sessions newSession =
     list_ex (\<lambda>session.
        (let existingRange = \<lparr>startTime = startTime session, endTime = endTime session\<rparr>
         in (js_greater_eq (startTime newSession) (startTime existingRange)
               \<and> js_less (startTime newSession) (endTime existingRange))
          \<or> (js_greater (endTime newSession) (startTime existingRange)
               \<and> js_less_eq (endTime newSession) (endTime existingRange))
          \<or> (js_less_eq (startTime newSession) (startTime existingRange)
               \<and> js_greater_eq (endTime newSession) (endTime existingRange))))
       sessions"

definition checkForOverlap :: "jsEndpoint Session list \<Rightarrow> jsEndpoint TimeRange \<Rightarrow> bool" where
  "checkForOverlap sessions newSession =
     (if length sessions = 0 then False else hasOverlap_sessions sessions newSession)"


section \<open>Dates of the analytics page\<close>

text \<open>
  \<^verbatim>\<open>components/AnalyticsPage.tsx\<close> works on \<^verbatim>\<open>Date\<close> objects in the browser's local
  time zone. A date is its time value in milliseconds. The zone is a parameter \<open>tz\<close>, the
  offset of local time from UTC in milliseconds, taken as constant over the window and the
  period of the same length before it (no daylight-saving change inside them), so that a
  local day is 86400000 ms long. The string
  \<^verbatim>\<open>YYYY-MM-DD\<close> that \<^verbatim>\<open>getLocalDateString\<close> builds from \<^verbatim>\<open>getFullYear\<close>,
  \<^verbatim>\<open>getMonth\<close> and \<^verbatim>\<open>getDate\<close> names the local calendar day; the model keeps the
  number of that day (days since the epoch, local time) in its place. JavaScript numbers
  are modelled as exact rationals and \<^verbatim>\<open>Math.round\<close> is written out. Durations and
  hours are whole numbers of hundredths, for which this is what the source computes; a
  focus level is computed by the source in double arithmetic, and the model has the exact
  value of the same expression, which the source's value approximates.
\<close>

type_synonym localDate = int

definition msPerDay :: int where
  "msPerDay = 86400000"

definition getLocalDateString :: "int \<Rightarrow> int \<Rightarrow> localDate" where
  "getLocalDateString tz t = (t + tz) div msPerDay"

text \<open>\<^verbatim>\<open>d.setHours(0, 0, 0, 0)\<close> and \<^verbatim>\<open>d.setHours(23, 59, 59, 999)\<close>.\<close>

definition setHours_startOfDay :: "int \<Rightarrow> int \<Rightarrow> int" where
  "setHours_startOfDay tz t = (t + tz) div msPerDay * msPerDay - tz"

definition setHours_endOfDay :: "int \<Rightarrow> int \<Rightarrow> int" where
  "setHours_endOfDay tz t = (t + tz) div msPerDay * msPerDay - tz + 86399999"

text \<open>\<^verbatim>\<open>d.setDate(d.getDate() + 1)\<close>: the same local time on the next day.\<close>

definition setDate_nextDay :: "int \<Rightarrow> int" where
  "setDate_nextDay t = t + msPerDay"

text \<open>\<^verbatim>\<open>Math.round\<close>: the nearest integer, a tie going up.\<close>

definition Math_round :: "rat \<Rightarrow> int" where
  "Math_round x = \<lfloor>x + 1 / 2\<rfloor>"

record WorkSession =
  ws_id :: string
  startTime_seconds :: int
  endTime_seconds :: int
  session_focusLevel :: rat

record ChartDataPoint =
  date :: localDate
  hours :: rat
  focusLevel :: rat
  isToday :: bool
  previousHours :: rat
  previousFocusLevel :: rat
  comparisonDate :: "localDate option"

record DateRange =
  range_start :: int
  range_end :: int

definition getPreviousPeriodDates :: "int \<Rightarrow> int \<Rightarrow> DateRange" where
  "getPreviousPeriodDates start end' =
     (let duration = end' - start;
          previousEnd = start - 1;
          previousStart = previousEnd - duration
      in \<lparr>range_start = previousStart, range_end = previousEnd\<rparr>)"

section \<open>The aggregator \<^verbatim>\<open>chartData\<close>\<close>

text \<open>
  The \<^verbatim>\<open>while (currentDate <= rangeEndDate)\<close> loop that creates one point per step of
  one day. The points are returned in the order in which the loop pushes them.
\<close>

function enumerateDates ::
  "int \<Rightarrow> int \<Rightarrow> DateRange \<Rightarrow> DateRange option \<Rightarrow> int \<Rightarrow> int \<Rightarrow> ChartDataPoint list" where
  "enumerateDates tz today dateRange previousPeriod currentDate rangeEndDate =
     (if currentDate \<le> rangeEndDate then
        (let isToday' = (getLocalDateString tz currentDate = getLocalDateString tz today);
             dateStr = getLocalDateString tz currentDate;
             comparisonDate' =
               (case previousPeriod of
                  None \<Rightarrow> None
                | Some p \<Rightarrow>
                    (let comparisonTime = currentDate - (range_end dateRange - range_start dateRange)
                     in Some (getLocalDateString tz comparisonTime)))
         in \<lparr>date = dateStr, hours = 0, focusLevel = 0, isToday = isToday',
              previousHours = 0, previousFocusLevel = 0, comparisonDate = comparisonDate'\<rparr>
            # enumerateDates tz today dateRange previousPeriod (setDate_nextDay currentDate) rangeEndDate)
      else [])"
  by pat_completeness auto
termination
  by (relation "measure (\<lambda>(tz, today, dateRange, previousPeriod, currentDate, rangeEndDate).
        nat (rangeEndDate - currentDate + 1))")
     (auto simp: setDate_nextDay_def msPerDay_def)

declare enumerateDates.simps [simp del]

text \<open>
  \<^verbatim>\<open>Math.round((end.seconds - start.seconds) / 36) / 100\<close>: the duration in hours,
  rounded to hundredths.
\<close>

definition durationInHours :: "WorkSession \<Rightarrow> rat" where
  "durationInHours session =
     of_int (Math_round (of_int (endTime_seconds session - startTime_seconds session) / 36)) / 100"

text \<open>
  \<^verbatim>\<open>dates.find(d => d.date === dateStr)\<close> followed by the update of the point found:
  the first point that satisfies the test is replaced, and nothing happens without one.
\<close>

fun findAndUpdate :: "('a \<Rightarrow> bool) \<Rightarrow> ('a \<Rightarrow> 'a) \<Rightarrow> 'a list \<Rightarrow> 'a list" where
  "findAndUpdate P f [] = []"
| "findAndUpdate P f (d # ds) = (if P d then f d # ds else d # findAndUpdate P f ds)"

text \<open>
  The body of \<^verbatim>\<open>filteredSessions.forEach\<close> on the point found. Division by zero does
  not arise for sessions that end after they start (HOL would give 0 where JavaScript
  gives NaN or an infinity). The new focus level is the exact value of the expression
  that the source evaluates in double arithmetic; the new hours are a whole number of
  hundredths, as in the source.
\<close>

definition accumulate :: "WorkSession \<Rightarrow> ChartDataPoint \<Rightarrow> ChartDataPoint" where
  "accumulate session existingDay =
     (let d = durationInHours session;
          focusLevel' =
            (if hours existingDay = 0 then session_focusLevel session
             else (let totalHours = hours existingDay + d
                   in (focusLevel existingDay * hours existingDay + session_focusLevel session * d)
                        / totalHours))
      in existingDay\<lparr>focusLevel := focusLevel',
                       hours := of_int (Math_round ((hours existingDay + d) * 100)) / 100\<rparr>)"

definition processSession :: "int \<Rightarrow> WorkSession \<Rightarrow> ChartDataPoint list \<Rightarrow> ChartDataPoint list" where
  "processSession tz session dates =
     (let date' = startTime_seconds session * 1000;
          dateStr = getLocalDateString tz date'
      in findAndUpdate (\<lambda>d. date d = dateStr) (accumulate session) dates)"

text \<open>The body of \<^verbatim>\<open>previousSessions.forEach\<close>.\<close>

definition accumulatePrevious :: "WorkSession \<Rightarrow> ChartDataPoint \<Rightarrow> ChartDataPoint" where
  "accumulatePrevious session existingDay =
     (let d = durationInHours session;
          previousFocusLevel' =
            (if previousHours existingDay = 0 then session_focusLevel session
             else (let totalHours = previousHours existingDay + d
                   in (previousFocusLevel existingDay * previousHours existingDay
                         + session_focusLevel session * d) / totalHours))
      in existingDay\<lparr>previousFocusLevel := previousFocusLevel',
                       previousHours := of_int (Math_round ((previousHours existingDay + d) * 100)) / 100\<rparr>)"

definition processPreviousSession ::
  "int \<Rightarrow> DateRange \<Rightarrow> DateRange \<Rightarrow> WorkSession \<Rightarrow> ChartDataPoint list \<Rightarrow> ChartDataPoint list" where
  "processPreviousSession tz dateRange previousPeriod session dates =
     (let date' = startTime_seconds session * 1000;
          targetDate = date' + (range_end dateRange - range_end previousPeriod);
          targetDateStr = getLocalDateString tz targetDate
      in findAndUpdate (\<lambda>d. date d = targetDateStr) (accumulatePrevious session) dates)"

text \<open>The two filters of \<^verbatim>\<open>chartData\<close>, on the start instant of a session.\<close>

definition inRange :: "int \<Rightarrow> int \<Rightarrow> WorkSession \<Rightarrow> bool" where
  "inRange lo hi session =
     (let sessionDate = startTime_seconds session * 1000
      in sessionDate \<ge> lo \<and> sessionDate \<le> hi)"

text \<open>
  \<^verbatim>\<open>chartData\<close>, with the clock (\<open>now\<close>) and the component state it reads
  (\<^verbatim>\<open>sessions\<close>, \<^verbatim>\<open>dateRange\<close>, \<^verbatim>\<open>showComparison\<close>) as arguments.
\<close>

definition chartData ::
  "int \<Rightarrow> int \<Rightarrow> WorkSession list \<Rightarrow> DateRange option \<Rightarrow> bool \<Rightarrow> ChartDataPoint list" where
  "chartData tz now sessions dateRange showComparison =
     (case dateRange of
        None \<Rightarrow> []
      | Some dr \<Rightarrow>
          (let today = setHours_startOfDay tz now;
               previousPeriod =
                 (if showComparison
                  then Some (getPreviousPeriodDates (range_start dr) (range_end dr)) else None);
               dates = enumerateDates tz today dr previousPeriod (range_start dr) (range_end dr);
               rangeStart = setHours_startOfDay tz (range_start dr);
               rangeEnd = setHours_endOfDay tz (range_end dr);
               filteredSessions = filter (inRange rangeStart rangeEnd) sessions;
               dates1 = fold (processSession tz) filteredSessions dates
           in (case previousPeriod of
                 None \<Rightarrow> dates1
               | Some pp \<Rightarrow>
                   (let previousSessions = filter (inRange (range_start pp) (range_end pp)) sessions
                    in fold (processPreviousSession tz dr pp) previousSessions dates1))))"

text \<open>
  \<^verbatim>\<open>handleCustomRangeSubmit\<close>. The two text inputs are given by the time value that
  \<^verbatim>\<open>new Date(...)\<close> makes of them, \<open>None\<close> for the empty (falsy) string. The result is
  the message of the \<^verbatim>\<open>alert\<close>, if any, and the component state after the call.
\<close>

record PageState =
  dateRange_state :: "DateRange option"
  selectedRangeLabel :: string
  showCustomRange :: bool

definition handleCustomRangeSubmit ::
  "int \<Rightarrow> int option \<Rightarrow> int option \<Rightarrow> PageState \<Rightarrow> string option \<times> PageState" where
  "handleCustomRangeSubmit tz customStartDate customEndDate st =
     (case (customStartDate, customEndDate) of
        (Some a, Some b) \<Rightarrow>
          (let start = setHours_startOfDay tz a;
               end' = setHours_endOfDay tz b
           in if start > end' then (Some ''Start date must be before end date'', st)
              else (None, st\<lparr>dateRange_state := Some \<lparr>range_start = start, range_end = end'\<rparr>,
                              selectedRangeLabel := ''Custom Range'',
                              showCustomRange := False\<rparr>))
      | _ \<Rightarrow> (None, st))"

section \<open>Notions used to state the properties\<close>

text \<open>The rounded duration of a session as a whole number of hundredths of an hour.\<close>

definition centiHours :: "WorkSession \<Rightarrow> int" where
  "centiHours s = Math_round (of_int (endTime_seconds s - startTime_seconds s) / 36)"

text \<open>The local calendar day of the start instant of a session.\<close>

definition sessionDay :: "int \<Rightarrow> WorkSession \<Rightarrow> localDate" where
  "sessionDay tz s = getLocalDateString tz (startTime_seconds s * 1000)"

text \<open>
  The sessions that \<^verbatim>\<open>chartData\<close> attributes to the bucket of a day: those that pass
  the filter of the current period and start on that day.
\<close>

definition attributed :: "int \<Rightarrow> DateRange \<Rightarrow> localDate \<Rightarrow> WorkSession list \<Rightarrow> WorkSession list" where
  "attributed tz dr day sessions =
     filter (\<lambda>s. sessionDay tz s = day)
       (filter (inRange (setHours_startOfDay tz (range_start dr))
                        (setHours_endOfDay tz (range_end dr))) sessions)"

text \<open>
  The sessions that \<^verbatim>\<open>chartData\<close> attributes to the comparison fields of the bucket
  of a day: those that pass the filter of the previous period, with the bounds that
  \<^verbatim>\<open>getPreviousPeriodDates\<close> returns, and whose start instant, moved by the distance
  from the end of the previous period to the end of the window, falls on that day.
\<close>

definition attributedPrevious :: "int \<Rightarrow> DateRange \<Rightarrow> localDate \<Rightarrow> WorkSession list \<Rightarrow> WorkSession list" where
  "attributedPrevious tz dr day sessions =
     filter (\<lambda>s. getLocalDateString tz
                   (startTime_seconds s * 1000 + (range_end dr - (range_start dr - 1))) = day)
       (filter (inRange (range_start dr - 1 - (range_end dr - range_start dr)) (range_start dr - 1))
          sessions)"

text \<open>
  The point that the loop over the days pushes for a day, without the mark of the
  current day and without a comparison date.
\<close>

definition freshPoint :: "localDate \<Rightarrow> ChartDataPoint" where
  "freshPoint d = \<lparr>date = d, hours = 0, focusLevel = 0, isToday = False,
                    previousHours = 0, previousFocusLevel = 0, comparisonDate = None\<rparr>"

text \<open>
  In the words of the specification: the duration of a record at full precision, in
  hours, and the duration-weighted mean of the quality scores of a collection of records.
\<close>

definition exactDurationInHours :: "WorkSession \<Rightarrow> rat" where
  "exactDurationInHours s = of_int (endTime_seconds s - startTime_seconds s) / 3600"

definition exactWeightedMean :: "WorkSession list \<Rightarrow> rat" where
  "exactWeightedMean ss =
     sum_list (map (\<lambda>s. session_focusLevel s * exactDurationInHours s) ss)
       / sum_list (map exactDurationInHours ss)"

section \<open>Example inputs\<close>

text \<open>
  The local zone of the examples is UTC (\<open>tz = 0\<close>). \<open>jan1\<close> is the single day
  2024-01-01 from 00:00:00 to 23:59:59, \<open>jan1_2\<close> the two days 2024-01-01 and
  2024-01-02, and \<open>noon\<close> is 2024-01-01 12:00. The sessions start on 2024-01-01 at
  09:00 (two hours, focus 8), at 12:00 (one hour, focus 5) and at 01:00 (3617 seconds
  with focus 2, 50 seconds, 10 seconds).
\<close>

definition jan1 :: DateRange where
  "jan1 = \<lparr>range_start = 1704067200000, range_end = 1704153599000\<rparr>"

definition jan1_2 :: DateRange where
  "jan1_2 = \<lparr>range_start = 1704067200000, range_end = 1704239999999\<rparr>"

definition noon :: int where "noon = 1704110400000"

definition session_2h :: WorkSession where
  "session_2h = \<lparr>ws_id = ''a'', startTime_seconds = 1704099600, endTime_seconds = 1704106800,
                  session_focusLevel = 8\<rparr>"

definition session_1h :: WorkSession where
  "session_1h = \<lparr>ws_id = ''b'', startTime_seconds = 1704110400, endTime_seconds = 1704114000,
                  session_focusLevel = 5\<rparr>"

definition session_50s :: WorkSession where
  "session_50s = \<lparr>ws_id = ''c'', startTime_seconds = 1704070800, endTime_seconds = 1704070850,
                   session_focusLevel = 1\<rparr>"

definition session_3617s :: WorkSession where
  "session_3617s = \<lparr>ws_id = ''g'', startTime_seconds = 1704070800, endTime_seconds = 1704074417,
                     session_focusLevel = 2\<rparr>"

definition session_10s :: "rat \<Rightarrow> WorkSession" where
  "session_10s f = \<lparr>ws_id = ''d'', startTime_seconds = 1704070800, endTime_seconds = 1704070810,
                   session_focusLevel = f\<rparr>"

text \<open>
  The window that the preset \<^verbatim>\<open>Last 7 Days\<close> returns at 2024-01-01 12:00:00.000 when
  the clock advances by one millisecond between its two \<^verbatim>\<open>new Date()\<close> calls: the
  end is taken first, the start is taken one millisecond later and moved back six days.
\<close>

definition last7days_tick :: DateRange where
  "last7days_tick = \<lparr>range_start = 1703592000001, range_end = 1704110400000\<rparr>"

text \<open>
  The window that the preset \<^verbatim>\<open>Last 7 Days\<close> returns at 2024-01-07 12:00:00.000
  (\<open>noon_jan7\<close>), from 2024-01-01 12:00 to 2024-01-07 12:00, and a session of one hour
  on 2023-12-26 at 06:00.
\<close>

definition last7days_noon :: DateRange where
  "last7days_noon = \<lparr>range_start = 1704110400000, range_end = 1704628800000\<rparr>"

definition noon_jan7 :: int where "noon_jan7 = 1704628800000"

definition session_dec26 :: WorkSession where
  "session_dec26 = \<lparr>ws_id = ''e'', startTime_seconds = 1703570400, endTime_seconds = 1703574000,
                     session_focusLevel = 6\<rparr>"

text \<open>A window whose start lies after its end, and a state of the page.\<close>

definition inverted_window :: DateRange where
  "inverted_window = \<lparr>range_start = 1704153599000, range_end = 1704067200000\<rparr>"

definition page0 :: PageState where
  "page0 = \<lparr>dateRange_state = Some jan1, selectedRangeLabel = ''Last 7 Days'', showCustomRange = True\<rparr>"

section \<open>Properties of the overlap check\<close>

lemma checkForSessionOverlap_iff:
  "checkForSessionOverlap docs uid a b None \<longleftrightarrow>
     (\<exists>d \<in> set docs. userId d = uid \<and>
        hasOverlap \<lparr>startTime = JSDate a, endTime = JSDate b\<rparr>
                   \<lparr>startTime = startTime d, endTime = endTime d\<rparr>)"
  by (auto simp: checkForSessionOverlap_def list_ex_iff)

text \<open>
  In the earlier revision, the test for the empty collection in front of
  \<^verbatim>\<open>hasOverlap\<close> changes nothing.
\<close>

lemma checkForOverlap_eq:
  "checkForOverlap sessions newSession = hasOverlap_sessions sessions newSession"
  by (cases sessions) (simp_all add: checkForOverlap_def hasOverlap_sessions_def)



text \<open>
  Claim C8. With a non-empty \<^verbatim>\<open>excludeSessionId\<close> \<open>x\<close>, the documents with that id
  are removed before any range is compared: \<^verbatim>\<open>checkForSessionOverlap\<close> answers as
  the check without an excluded id does on the store without these documents, that is,
  true exactly when some other session of the user passes the half-open test against the
  candidate \<open>[a, b)\<close>. Hence replacing the time range of every document with id \<open>x\<close> by
  any other range leaves the answer unchanged.
\<close>

theorem checkForSessionOverlap_excludes_edited:
  assumes "x \<noteq> []"
  shows "checkForSessionOverlap docs uid a b (Some x)
           = checkForSessionOverlap (filter (\<lambda>d. session_id d \<noteq> x) docs) uid a b None
       \<and> (checkForSessionOverlap docs uid a b (Some x) \<longleftrightarrow>
            (\<exists>d \<in> set docs. userId d = uid \<and> session_id d \<noteq> x
                \<and> a < toDate (endTime d) \<and> toDate (startTime d) < b))
       \<and> checkForSessionOverlap
           (map (\<lambda>d. if session_id d = x then d\<lparr>startTime := f d, endTime := g d\<rparr> else d) docs)
           uid a b (Some x)
         = checkForSessionOverlap docs uid a b (Some x)"
proof -
  have removed: "checkForSessionOverlap docs uid a b (Some x)
           = checkForSessionOverlap (filter (\<lambda>d. session_id d \<noteq> x) docs) uid a b None"
    using assms by (induction docs) (auto simp: checkForSessionOverlap_def)
  have others: "checkForSessionOverlap docs uid a b (Some x) \<longleftrightarrow>
            (\<exists>d \<in> set docs. userId d = uid \<and> session_id d \<noteq> x
                \<and> a < toDate (endTime d) \<and> toDate (startTime d) < b)"
    unfolding removed by (auto simp: checkForSessionOverlap_iff hasOverlap_def)
  have same: "checkForSessionOverlap
           (map (\<lambda>d. if session_id d = x then d\<lparr>startTime := f d, endTime := g d\<rparr> else d) docs)
           uid a b (Some x)
         = checkForSessionOverlap docs uid a b (Some x)"
    using assms by (induction docs) (auto simp: checkForSessionOverlap_def)
  from removed others same show ?thesis by blast
qed

text \<open>
  The theorem at a store with the sessions \<open>s1\<close> (09:00--10:00) and \<open>s2\<close> (10:00--11:00)
  and an edit of \<open>s1\<close> to 09:30--10:30: the check answers true, because of \<open>s2\<close>; without
  \<open>s2\<close> in the store it answers false, although the range of \<open>s1\<close> meets the candidate.
\<close>

theorem checkForSessionOverlap_excludes_edited_witness:
  "''s1'' \<noteq> []
   \<and> checkForSessionOverlap
        [\<lparr>startTime = Timestamp 32400 0, endTime = Timestamp 36000 0,
          session_id = ''s1'', userId = ''u''\<rparr>,
         \<lparr>startTime = Timestamp 36000 0, endTime = Timestamp 39600 0,
          session_id = ''s2'', userId = ''u''\<rparr>]
        ''u'' 34200000 37800000 (Some ''s1'')
   \<and> checkForSessionOverlap
        (filter (\<lambda>d. session_id d \<noteq> ''s1'')
           [\<lparr>startTime = Timestamp 32400 0, endTime = Timestamp 36000 0,
             session_id = ''s1'', userId = ''u''\<rparr>,
            \<lparr>startTime = Timestamp 36000 0, endTime = Timestamp 39600 0,
             session_id = ''s2'', userId = ''u''\<rparr>])
        ''u'' 34200000 37800000 None
   \<and> \<not> checkForSessionOverlap
        [\<lparr>startTime = Timestamp 32400 0, endTime = Timestamp 36000 0,
          session_id = ''s1'', userId = ''u''\<rparr>]
        ''u'' 34200000 37800000 (Some ''s1'')"
proof -
  have ne: "''s1'' \<noteq> []" by simp
  note two = checkForSessionOverlap_excludes_edited
    [OF ne, of "[\<lparr>startTime = Timestamp 32400 0, endTime = Timestamp 36000 0,
          session_id = ''s1'', userId = ''u''\<rparr>,
         \<lparr>startTime = Timestamp 36000 0, endTime = Timestamp 39600 0,
          session_id = ''s2'', userId = ''u''\<rparr>]" "''u''" 34200000 37800000
        "\<lambda>d. JSDate 0" "\<lambda>d. JSDate 99"]
  note one = checkForSessionOverlap_excludes_edited
    [OF ne, of "[\<lparr>startTime = Timestamp 32400 0, endTime = Timestamp 36000 0,
          session_id = ''s1'', userId = ''u''\<rparr>]" "''u''" 34200000 37800000
        "\<lambda>d. JSDate 0" "\<lambda>d. JSDate 99"]
  from two one show ?thesis by (simp add: checkForSessionOverlap_def hasOverlap_def)
qed

section \<open>The earlier three-clause test\<close>

text \<open>
  When every endpoint is an object \<^verbatim>\<open>{ seconds: n }\<close>, the declared shape of a stored
  session, the third clause holds for every stored session, whatever the numbers are,
  and the test answers true on every collection that is not empty.
\<close>

lemma hasOverlap_sessions_seconds_objects:
  assumes "\<forall>s \<in> set sessions. \<exists>x y. startTime s = SecondsObject x \<and> endTime s = SecondsObject y"
  shows "hasOverlap_sessions sessions \<lparr>startTime = SecondsObject a, endTime = SecondsObject b\<rparr>
           \<longleftrightarrow> sessions \<noteq> []"
  using assms
  by (cases sessions)
     (auto simp: hasOverlap_sessions_def list_ex_iff Let_def js_less_eq_def js_greater_eq_def)

text \<open>
  When the new session has \<^verbatim>\<open>Date\<close> endpoints and the stored sessions have objects,
  every comparison is undefined and the test answers false.
\<close>

lemma hasOverlap_sessions_date_against_objects:
  assumes "\<forall>s \<in> set sessions. \<exists>x y. startTime s = SecondsObject x \<and> endTime s = SecondsObject y"
  shows "\<not> hasOverlap_sessions sessions \<lparr>startTime = DateObject a, endTime = DateObject b\<rparr>"
  using assms
  by (auto simp: hasOverlap_sessions_def list_ex_iff Let_def
        js_less_def js_greater_def js_less_eq_def js_greater_eq_def)

text \<open>
  Only when all four endpoints are \<^verbatim>\<open>Date\<close> objects do the operators compare
  instants; on well-formed ranges the three clauses then say what the single comparison
  of the current \<^verbatim>\<open>hasOverlap\<close> says.
\<close>

lemma hasOverlap_sessions_dates:
  assumes "a < b" and "c < d"
  shows "hasOverlap_sessions
           [\<lparr>startTime = DateObject c, endTime = DateObject d, session_id = i, userId = u\<rparr>]
           \<lparr>startTime = DateObject a, endTime = DateObject b\<rparr>
       = hasOverlap \<lparr>startTime = JSDate a, endTime = JSDate b\<rparr>
                    \<lparr>startTime = JSDate c, endTime = JSDate d\<rparr>"
  using assms
  by (auto simp: hasOverlap_sessions_def hasOverlap_def Let_def
        js_less_def js_greater_def js_less_eq_def js_greater_eq_def)


section \<open>Rounding\<close>

lemma Math_round_of_int: "Math_round (of_int k) = k"
  by (simp add: Math_round_def floor_eq_iff) 

lemma Math_round_div36: "Math_round (of_int n / 36) = (n + 18) div 36"
proof -
  have "of_int n / 36 + 1 / 2 = (of_int (n + 18) :: rat) / of_int 36" by simp
  then have "Math_round (of_int n / 36) = \<lfloor>(of_int (n + 18) :: rat) / of_int 36\<rfloor>"
    by (simp only: Math_round_def)
  then show ?thesis by (simp only: floor_divide_of_int_eq)
qed

lemma durationInHours_centi: "durationInHours s = of_int (centiHours s) / 100"
  by (simp add: durationInHours_def centiHours_def)

lemma round_hundredths: "of_int (Math_round ((of_int a / 100 + of_int b / 100) * 100)) / 100 = (of_int a / 100 + of_int b / 100 :: rat)"
proof -
  have "(of_int a / 100 + of_int b / 100) * 100 = (of_int (a + b) :: rat)" by simp
  then show ?thesis by (simp only: Math_round_of_int) simp
qed

section \<open>The two \<^verbatim>\<open>forEach\<close> loops, point by point\<close>

text \<open>
  The dates of the points are pairwise different, so \<^verbatim>\<open>find\<close> meets at most one
  point, and a loop over the sessions acts on every point separately: on the sessions
  whose key is the date of the point.
\<close>

lemma findAndUpdate_dates:
  "(\<And>d. date (f d) = date d) \<Longrightarrow> map date (findAndUpdate P f ds) = map date ds"
  by (induction ds) auto

lemma findAndUpdate_distinct:
  "distinct (map date ds) \<Longrightarrow>
   findAndUpdate (\<lambda>d. date d = k) f ds = map (\<lambda>d. if date d = k then f d else d) ds"
proof (induction ds)
  case Nil
  then show ?case by simp
next
  case (Cons d ds)
  show ?case
  proof (cases "date d = k")
    case True
    with Cons.prems have "\<forall>e \<in> set ds. date e \<noteq> k" by (auto simp: image_iff)
    then have "map (\<lambda>d. if date d = k then f d else d) ds = ds"
      by (simp add: map_idI)
    with True show ?thesis by simp
  next
    case False
    with Cons show ?thesis by simp
  qed
qed

lemma fold_findAndUpdate:
  assumes "\<And>s d. date (g s d) = date d" and "distinct (map date ds)"
  shows "fold (\<lambda>s. findAndUpdate (\<lambda>d. date d = key s) (g s)) ss ds
       = map (\<lambda>p. fold g (filter (\<lambda>s. key s = date p) ss) p) ds"
  using assms(2)
proof (induction ss arbitrary: ds)
  case Nil
  then show ?case by simp
next
  case (Cons s ss)
  let ?ds' = "map (\<lambda>d. if date d = key s then g s d else d) ds"
  have dates: "map date ?ds' = map date ds"
    by (induction ds) (auto simp: assms(1))
  have dist: "distinct (map date ?ds')" unfolding dates by (rule Cons.prems)
  have "fold (\<lambda>s. findAndUpdate (\<lambda>d. date d = key s) (g s)) (s # ss) ds
      = fold (\<lambda>s. findAndUpdate (\<lambda>d. date d = key s) (g s)) ss ?ds'"
    using Cons.prems by (simp add: findAndUpdate_distinct)
  also have "\<dots> = map (\<lambda>p. fold g (filter (\<lambda>s. key s = date p) ss) p) ?ds'"
    by (rule Cons.IH [OF dist])
  also have "\<dots> = map (\<lambda>p. fold g (filter (\<lambda>s. key s = date p) (s # ss)) p) ds"
    by (auto simp: assms(1))
  finally show ?case .
qed

lemma accumulate_fields [simp]:
  "date (accumulate s p) = date p"
  "isToday (accumulate s p) = isToday p"
  "previousHours (accumulate s p) = previousHours p"
  "previousFocusLevel (accumulate s p) = previousFocusLevel p"
  "comparisonDate (accumulate s p) = comparisonDate p"
  by (simp_all add: accumulate_def Let_def)

lemma accumulatePrevious_fields [simp]:
  "date (accumulatePrevious s p) = date p"
  "isToday (accumulatePrevious s p) = isToday p"
  "hours (accumulatePrevious s p) = hours p"
  "focusLevel (accumulatePrevious s p) = focusLevel p"
  "comparisonDate (accumulatePrevious s p) = comparisonDate p"
  by (simp_all add: accumulatePrevious_def Let_def)

lemma fold_accumulate_fields [simp]:
  "date (fold accumulate ss p) = date p"
  "isToday (fold accumulate ss p) = isToday p"
  "previousHours (fold accumulate ss p) = previousHours p"
  "previousFocusLevel (fold accumulate ss p) = previousFocusLevel p"
  "comparisonDate (fold accumulate ss p) = comparisonDate p"
  by (induction ss arbitrary: p) simp_all

lemma fold_accumulatePrevious_fields [simp]:
  "date (fold accumulatePrevious ss p) = date p"
  "isToday (fold accumulatePrevious ss p) = isToday p"
  "hours (fold accumulatePrevious ss p) = hours p"
  "focusLevel (fold accumulatePrevious ss p) = focusLevel p"
  "comparisonDate (fold accumulatePrevious ss p) = comparisonDate p"
  by (induction ss arbitrary: p) simp_all

text \<open>Hours accumulate exactly, as every summand is a whole number of hundredths.\<close>

lemma accumulate_hours:
  assumes "hours p = of_int a / 100"
  shows "hours (accumulate s p) = of_int (a + centiHours s) / 100"
proof -
  have "hours (accumulate s p)
      = of_int (Math_round ((of_int a / 100 + of_int (centiHours s) / 100) * 100)) / 100"
    by (simp add: accumulate_def Let_def assms durationInHours_centi)
  then show ?thesis by (simp only: round_hundredths) (simp add: add_divide_distrib)
qed

lemma fold_accumulate_hours:
  assumes "hours p = of_int a / 100"
  shows "hours (fold accumulate ss p) = of_int (a + sum_list (map centiHours ss)) / 100"
  using assms
proof (induction ss arbitrary: p a)
  case Nil
  then show ?case by simp
next
  case (Cons s ss)
  from accumulate_hours [OF Cons.prems]
  have "hours (fold accumulate ss (accumulate s p))
      = of_int (a + centiHours s + sum_list (map centiHours ss)) / 100"
    by (rule Cons.IH)
  then show ?case by (simp add: add.assoc)
qed

lemma accumulatePrevious_hours:
  assumes "previousHours p = of_int a / 100"
  shows "previousHours (accumulatePrevious s p) = of_int (a + centiHours s) / 100"
proof -
  have "previousHours (accumulatePrevious s p)
      = of_int (Math_round ((of_int a / 100 + of_int (centiHours s) / 100) * 100)) / 100"
    by (simp add: accumulatePrevious_def Let_def assms durationInHours_centi)
  then show ?thesis by (simp only: round_hundredths) (simp add: add_divide_distrib)
qed

lemma fold_accumulatePrevious_hours:
  assumes "previousHours p = of_int a / 100"
  shows "previousHours (fold accumulatePrevious ss p) = of_int (a + sum_list (map centiHours ss)) / 100"
  using assms
proof (induction ss arbitrary: p a)
  case Nil
  then show ?case by simp
next
  case (Cons s ss)
  from accumulatePrevious_hours [OF Cons.prems]
  have "previousHours (fold accumulatePrevious ss (accumulatePrevious s p))
      = of_int (a + centiHours s + sum_list (map centiHours ss)) / 100"
    by (rule Cons.IH)
  then show ?case by (simp add: add.assoc)
qed

lemma sum_list_durationInHours:
  "sum_list (map durationInHours ss) = of_int (sum_list (map centiHours ss)) / 100"
  by (induction ss) (simp_all add: durationInHours_centi add_divide_distrib)

section \<open>The loop over the days\<close>

lemma day_next: "getLocalDateString tz (setDate_nextDay t) = getLocalDateString tz t + 1"
  by (simp add: getLocalDateString_def setDate_nextDay_def msPerDay_def add.assoc add.commute [of tz])

lemma steps_next: "(e - setDate_nextDay t) div msPerDay = (e - t) div msPerDay - 1"
proof -
  have "(e - t - msPerDay) div msPerDay = (e - t) div msPerDay - 1"
    using div_mult_self1 [of msPerDay "e - t" "- 1"] by (simp add: msPerDay_def)
  moreover have "e - (t + msPerDay) = e - t - msPerDay" by simp
  ultimately show ?thesis by (simp only: setDate_nextDay_def)
qed

lemma enumerateDates_dates:
  "map date (enumerateDates tz today dr pp cur e)
     = [getLocalDateString tz cur .. getLocalDateString tz cur + (e - cur) div msPerDay]"
proof (induction tz today dr pp cur e rule: enumerateDates.induct)
  case (1 tz today dr pp cur e)
  show ?case
  proof (cases "cur \<le> e")
    case True
    then have nn: "0 \<le> (e - cur) div msPerDay"
      by (simp add: msPerDay_def pos_imp_zdiv_nonneg_iff)
    have "map date (enumerateDates tz today dr pp cur e)
        = getLocalDateString tz cur # map date (enumerateDates tz today dr pp (setDate_nextDay cur) e)"
      using True by (subst enumerateDates.simps) (simp add: Let_def)
    also have "map date (enumerateDates tz today dr pp (setDate_nextDay cur) e)
        = [getLocalDateString tz cur + 1 .. getLocalDateString tz cur + (e - cur) div msPerDay]"
      using "1.IH" [OF True refl refl refl] True by (simp add: day_next steps_next)
    finally show ?thesis
      using nn by (simp add: upto_rec1)
  next
    case False
    then have "(e - cur) div msPerDay < 0"
      by (simp add: msPerDay_def neg_imp_zdiv_neg_iff)
    moreover have "enumerateDates tz today dr pp cur e = []"
      using False by (subst enumerateDates.simps) simp
    ultimately show ?thesis by simp
  qed
qed

lemma enumerateDates_fresh:
  "p \<in> set (enumerateDates tz today dr pp cur e) \<Longrightarrow>
     hours p = 0 \<and> focusLevel p = 0 \<and> previousHours p = 0 \<and> previousFocusLevel p = 0"
proof (induction tz today dr pp cur e rule: enumerateDates.induct)
  case (1 tz today dr pp cur e)
  show ?case
  proof (cases "cur \<le> e")
    case True
    from "1.prems" True
    have "p \<in> set (enumerateDates tz today dr pp (setDate_nextDay cur) e)
        \<or> (hours p = 0 \<and> focusLevel p = 0 \<and> previousHours p = 0 \<and> previousFocusLevel p = 0)"
      by (subst (asm) enumerateDates.simps) (auto simp: Let_def)
    with "1.IH" [OF True refl refl refl] show ?thesis by blast
  next
    case False
    with "1.prems" show ?thesis by (subst (asm) enumerateDates.simps) simp
  qed
qed

lemma enumerateDates_distinct: "distinct (map date (enumerateDates tz today dr pp cur e))"
  by (simp only: enumerateDates_dates distinct_upto)

lemma enumerateDates_empty: "e < cur \<Longrightarrow> enumerateDates tz today dr pp cur e = []"
  by (subst enumerateDates.simps) simp

section \<open>\<^verbatim>\<open>chartData\<close> as a map over the enumerated days\<close>

lemma getPreviousPeriodDates_eq:
  "getPreviousPeriodDates a b = \<lparr>range_start = a - 1 - (b - a), range_end = a - 1\<rparr>"
  by (simp add: getPreviousPeriodDates_def Let_def)

lemma fold_processSession:
  assumes "distinct (map date ds)"
  shows "fold (processSession tz) ss ds
       = map (\<lambda>p. fold accumulate (filter (\<lambda>s. sessionDay tz s = date p) ss) p) ds"
proof -
  have "processSession tz = (\<lambda>s. findAndUpdate (\<lambda>d. date d = sessionDay tz s) (accumulate s))"
    by (intro ext) (simp add: processSession_def sessionDay_def Let_def)
  then show ?thesis
    using fold_findAndUpdate [of accumulate ds "sessionDay tz" ss] assms by simp
qed

lemma fold_processPreviousSession:
  assumes "distinct (map date ds)"
  shows "fold (processPreviousSession tz dr pp) ss ds
       = map (\<lambda>p. fold accumulatePrevious
                    (filter (\<lambda>s. getLocalDateString tz
                        (startTime_seconds s * 1000 + (range_end dr - range_end pp)) = date p) ss) p) ds"
proof -
  have "processPreviousSession tz dr pp
      = (\<lambda>s. findAndUpdate (\<lambda>d. date d = getLocalDateString tz
                 (startTime_seconds s * 1000 + (range_end dr - range_end pp))) (accumulatePrevious s))"
    by (intro ext) (simp add: processPreviousSession_def Let_def)
  then show ?thesis
    using fold_findAndUpdate [of accumulatePrevious ds
        "\<lambda>s. getLocalDateString tz (startTime_seconds s * 1000 + (range_end dr - range_end pp))" ss]
      assms by simp
qed

lemma chartData_plain:
  "chartData tz now sessions (Some dr) False
     = map (\<lambda>p. fold accumulate (attributed tz dr (date p) sessions) p)
         (enumerateDates tz (setHours_startOfDay tz now) dr None (range_start dr) (range_end dr))"
  by (simp add: chartData_def Let_def fold_processSession enumerateDates_distinct attributed_def)

lemma chartData_comparison:
  "chartData tz now sessions (Some dr) True
     = map (\<lambda>p. fold accumulatePrevious (attributedPrevious tz dr (date p) sessions)
                  (fold accumulate (attributed tz dr (date p) sessions) p))
         (enumerateDates tz (setHours_startOfDay tz now) dr
            (Some (getPreviousPeriodDates (range_start dr) (range_end dr)))
            (range_start dr) (range_end dr))"
proof -
  let ?D = "enumerateDates tz (setHours_startOfDay tz now) dr
            (Some (getPreviousPeriodDates (range_start dr) (range_end dr)))
            (range_start dr) (range_end dr)"
  let ?D1 = "map (\<lambda>p. fold accumulate (attributed tz dr (date p) sessions) p) ?D"
  have d1: "map date ?D1 = map date ?D" by simp
  have dist1: "distinct (map date ?D1)"
    unfolding d1 by (rule enumerateDates_distinct)
  have "chartData tz now sessions (Some dr) True
      = fold (processPreviousSession tz dr (getPreviousPeriodDates (range_start dr) (range_end dr)))
          (filter (inRange (range_start (getPreviousPeriodDates (range_start dr) (range_end dr)))
                           (range_end (getPreviousPeriodDates (range_start dr) (range_end dr)))) sessions)
          ?D1"
    by (simp add: chartData_def Let_def fold_processSession enumerateDates_distinct attributed_def)
  also have "\<dots> = map (\<lambda>p. fold accumulatePrevious (attributedPrevious tz dr (date p) sessions) p) ?D1"
    by (simp only: fold_processPreviousSession [OF dist1])
       (simp add: getPreviousPeriodDates_eq attributedPrevious_def)
  also have "\<dots> = map (\<lambda>p. fold accumulatePrevious (attributedPrevious tz dr (date p) sessions)
                  (fold accumulate (attributed tz dr (date p) sessions) p)) ?D"
    by simp
  finally show ?thesis .
qed

lemma chartData_dates:
  "map date (chartData tz now sessions (Some dr) cmp)
     = [getLocalDateString tz (range_start dr) ..
        getLocalDateString tz (range_start dr) + (range_end dr - range_start dr) div msPerDay]"
  by (cases cmp) (simp_all add: chartData_plain chartData_comparison enumerateDates_dates o_def)

lemma chartData_hours:
  assumes "p \<in> set (chartData tz now sessions (Some dr) cmp)"
  shows "hours p = sum_list (map durationInHours (attributed tz dr (date p) sessions))"
proof -
  obtain q pp where q: "q \<in> set (enumerateDates tz (setHours_startOfDay tz now) dr pp (range_start dr) (range_end dr))"
    and dp: "date p = date q"
    and hp: "hours p = hours (fold accumulate (attributed tz dr (date q) sessions) q)"
    using assms by (cases cmp) (auto simp: chartData_plain chartData_comparison)
  from enumerateDates_fresh [OF q] have "hours q = of_int 0 / 100" by simp
  from fold_accumulate_hours [OF this] hp dp show ?thesis
    by (simp add: sum_list_durationInHours)
qed

section \<open>The comparison fields\<close>

lemma chartData_previous_hours:
  assumes "p \<in> set (chartData tz now sessions (Some dr) True)"
  shows "previousHours p = sum_list (map durationInHours (attributedPrevious tz dr (date p) sessions))"
proof -
  obtain q pp where q: "q \<in> set (enumerateDates tz (setHours_startOfDay tz now) dr pp (range_start dr) (range_end dr))"
    and dp: "date p = date q"
    and p: "p = fold accumulatePrevious (attributedPrevious tz dr (date q) sessions)
                  (fold accumulate (attributed tz dr (date q) sessions) q)"
    using assms by (auto simp: chartData_comparison)
  let ?q' = "fold accumulate (attributed tz dr (date q) sessions) q"
  from enumerateDates_fresh [OF q] have h0: "previousHours ?q' = of_int 0 / 100" by simp
  from fold_accumulatePrevious_hours [OF h0] p dp show ?thesis
    by (simp add: sum_list_durationInHours)
qed

section \<open>The focus level of a bucket\<close>

text \<open>
  The hours and the focus level that a run of updates leaves in a point depend on the
  hours and the focus level of the point it starts from, and on nothing else of it.
\<close>

lemma fold_accumulate_cong:
  assumes "hours p = hours q" and "focusLevel p = focusLevel q"
  shows "hours (fold accumulate ss p) = hours (fold accumulate ss q)
       \<and> focusLevel (fold accumulate ss p) = focusLevel (fold accumulate ss q)"
  using assms
proof (induction ss arbitrary: p q)
  case Nil
  then show ?case by simp
next
  case (Cons s ss)
  have h: "hours (accumulate s p) = hours (accumulate s q)"
    and f: "focusLevel (accumulate s p) = focusLevel (accumulate s q)"
    using Cons.prems by (simp_all add: accumulate_def Let_def)
  from Cons.IH [OF h f] show ?case by simp
qed

lemma chartData_score:
  assumes "p \<in> set (chartData tz now sessions (Some dr) cmp)"
  shows "focusLevel p
       = focusLevel (fold accumulate (attributed tz dr (date p) sessions) (freshPoint (date p)))"
proof -
  obtain q pp where q: "q \<in> set (enumerateDates tz (setHours_startOfDay tz now) dr pp (range_start dr) (range_end dr))"
    and dp: "date p = date q"
    and fp: "focusLevel p = focusLevel (fold accumulate (attributed tz dr (date q) sessions) q)"
    using assms by (cases cmp) (auto simp: chartData_plain chartData_comparison)
  from enumerateDates_fresh [OF q]
  have "hours q = hours (freshPoint (date q))" and "focusLevel q = focusLevel (freshPoint (date q))"
    by (simp_all add: freshPoint_def)
  from fold_accumulate_cong [OF this] fp dp show ?thesis by simp
qed

section \<open>Calendar arithmetic\<close>

lemma aligned_days:
  assumes "(a + tz) mod msPerDay \<le> (b + tz) mod msPerDay"
  shows "getLocalDateString tz a + (b - a) div msPerDay = getLocalDateString tz b"
proof -
  let ?D = "msPerDay"
  have D: "0 < ?D" by (simp add: msPerDay_def)
  let ?r = "(b + tz) mod ?D - (a + tz) mod ?D"
  have r: "0 \<le> ?r" "?r < ?D"
    using assms D pos_mod_bound [OF D, of "b + tz"] pos_mod_sign [OF D, of "a + tz"] by linarith+
  have "b - a = ?r + ((b + tz) div ?D - (a + tz) div ?D) * ?D"
    using div_mult_mod_eq [of "b + tz" ?D] div_mult_mod_eq [of "a + tz" ?D]
    by (simp add: algebra_simps)
  then have "(b - a) div ?D = (?r + ((b + tz) div ?D - (a + tz) div ?D) * ?D) div ?D" by simp
  also have "\<dots> = ((b + tz) div ?D - (a + tz) div ?D) + ?r div ?D"
    using D by (simp only: div_mult_self1 [of ?D]) 
  also have "?r div ?D = 0" using r by (simp add: div_pos_pos_trivial)
  finally show ?thesis by (simp add: getLocalDateString_def)
qed

lemma inRange_days:
  assumes "inRange (setHours_startOfDay tz a) (setHours_endOfDay tz b) s"
  shows "getLocalDateString tz a \<le> sessionDay tz s \<and> sessionDay tz s \<le> getLocalDateString tz b"
proof -
  let ?t = "startTime_seconds s * 1000 + tz"
  have D: "0 < msPerDay" by (simp add: msPerDay_def)
  from assms have lo: "(a + tz) div msPerDay * msPerDay \<le> ?t"
    and hi: "?t < ((b + tz) div msPerDay + 1) * msPerDay"
    by (simp_all add: inRange_def Let_def setHours_startOfDay_def setHours_endOfDay_def
          msPerDay_def algebra_simps)
  from lo D have "((a + tz) div msPerDay * msPerDay) div msPerDay \<le> ?t div msPerDay"
    by (rule zdiv_mono1)
  with D have "(a + tz) div msPerDay \<le> ?t div msPerDay" by simp
  moreover have "?t div msPerDay < (b + tz) div msPerDay + 1"
  proof (rule ccontr)
    assume "\<not> ?t div msPerDay < (b + tz) div msPerDay + 1"
    then have "((b + tz) div msPerDay + 1) * msPerDay \<le> ?t div msPerDay * msPerDay"
      using D by (simp add: mult_right_mono)
    also have "\<dots> \<le> ?t"
      using div_mult_mod_eq [of ?t msPerDay] pos_mod_sign [OF D, of ?t] by linarith
    finally show False using hi by simp
  qed
  ultimately show ?thesis by (simp add: sessionDay_def getLocalDateString_def)
qed

lemma sum_list_by_key:
  assumes "\<forall>s \<in> set ss. lo \<le> key s \<and> key s \<le> hi"
  shows "(\<Sum>k \<leftarrow> [lo..hi]. sum_list (map g (filter (\<lambda>s. key s = k) ss))) = sum_list (map (g :: 'a \<Rightarrow> rat) ss)"
  using assms
proof (induction ss)
  case Nil
  then show ?case by simp
next
  case (Cons s ss)
  have one: "(\<Sum>k \<leftarrow> [lo..hi]. if key s = k then g s else 0) = g s"
  proof -
    have "(\<Sum>k \<leftarrow> [lo..hi]. if key s = k then g s else 0)
        = (\<Sum>k \<in> {lo..hi}. if key s = k then g s else 0)"
      by (simp add: sum_list_distinct_conv_sum_set)
    also have "\<dots> = g s" using Cons.prems by (simp add: sum.delta')
    finally show ?thesis .
  qed
  have "(\<Sum>k \<leftarrow> [lo..hi]. sum_list (map g (filter (\<lambda>s. key s = k) (s # ss))))
      = (\<Sum>k \<leftarrow> [lo..hi]. (if key s = k then g s else 0)
            + sum_list (map g (filter (\<lambda>s. key s = k) ss)))"
    by (rule arg_cong [where f = sum_list], rule map_cong) auto
  also have "\<dots> = g s + sum_list (map g ss)"
    using Cons by (simp add: sum_list_addf one)
  finally show ?case by simp
qed

section \<open>Properties of the aggregator\<close>

lemma sum_list_attributed_mset:
  assumes "mset xs = mset ys"
  shows "sum_list (map g (attributed tz dr k xs)) = sum_list (map (g :: WorkSession \<Rightarrow> rat) (attributed tz dr k ys))"
proof -
  have "mset (map g (attributed tz dr k xs)) = mset (map g (attributed tz dr k ys))"
    by (simp add: attributed_def assms)
  then have "sum_mset (mset (map g (attributed tz dr k xs))) = sum_mset (mset (map g (attributed tz dr k ys)))"
    by (rule arg_cong)
  then show ?thesis by (simp only: sum_mset_sum_list)
qed

lemma chartData_length:
  "length (chartData tz now sessions' (Some dr) cmp) = length (chartData tz now sessions (Some dr) cmp)"
  using chartData_dates [of tz now sessions' dr cmp] chartData_dates [of tz now sessions dr cmp]
  by (metis length_map)

lemma chartData_nth_date:
  assumes "i < length (chartData tz now sessions (Some dr) cmp)"
  shows "date (chartData tz now sessions' (Some dr) cmp ! i) = date (chartData tz now sessions (Some dr) cmp ! i)"
proof -
  have i': "i < length (chartData tz now sessions' (Some dr) cmp)"
    using assms by (simp only: chartData_length [of tz now sessions' dr cmp sessions])
  have "map date (chartData tz now sessions' (Some dr) cmp) ! i = map date (chartData tz now sessions (Some dr) cmp) ! i"
    by (simp only: chartData_dates)
  with assms i' show ?thesis by simp
qed

text \<open>
  Against claim C2 as stated. Sessions of 3617 seconds (focus 2) and of one hour
  (focus 5) on one day: both durations are rounded to one hour, so the bucket has the
  focus level \<open>7 / 2\<close>, where the mean weighted by the durations themselves is
  \<open>25234 / 7217\<close>. Two sessions of 10 seconds, rounded to 0 hours, with focus 3 and 7:
  the bucket has the focus level of whichever comes last.
\<close>

theorem chartData_weighted_mean_counterexample:
  "map focusLevel (chartData 0 noon [session_3617s, session_1h] (Some jan1) False) = [7 / 2]
   \<and> exactWeightedMean [session_3617s, session_1h] = 25234 / 7217
   \<and> map focusLevel (chartData 0 noon [session_10s 3, session_10s 7] (Some jan1) False) = [7]
   \<and> map focusLevel (chartData 0 noon [session_10s 7, session_10s 3] (Some jan1) False) = [3]"
  by code_simp

text \<open>
  Claim C2, as the code has it. The duration of a session is rounded to hundredths of an
  hour before it is accumulated (\<open>durationInHours\<close>), and the running total of a bucket
  is rounded to hundredths after every addition. The hours of every bucket are the sum
  of the rounded durations of the sessions attributed to it, and the dates and the hours
  of the buckets are the same for every order of the sessions. The focus level of a
  bucket is what the running update \<open>accumulate\<close>, with the rounded durations, leaves
  when it is applied, from hours 0, to the sessions attributed to this bucket in the
  order in which they come; no other session has a part in it. That the focus level is
  an exact mean, or the same for every order, is not stated.
\<close>

theorem chartData_rounded_accumulation:
  assumes perm: "mset sessions' = mset sessions"
    and i: "i < length (chartData tz now sessions (Some dr) cmp)"
  shows "hours (chartData tz now sessions (Some dr) cmp ! i)
           = sum_list (map durationInHours
               (attributed tz dr (date (chartData tz now sessions (Some dr) cmp ! i)) sessions))
       \<and> date (chartData tz now sessions' (Some dr) cmp ! i)
           = date (chartData tz now sessions (Some dr) cmp ! i)
       \<and> hours (chartData tz now sessions' (Some dr) cmp ! i)
           = hours (chartData tz now sessions (Some dr) cmp ! i)
       \<and> focusLevel (chartData tz now sessions (Some dr) cmp ! i)
           = focusLevel (fold accumulate
               (attributed tz dr (date (chartData tz now sessions (Some dr) cmp ! i)) sessions)
               (freshPoint (date (chartData tz now sessions (Some dr) cmp ! i))))"
proof -
  let ?p = "chartData tz now sessions (Some dr) cmp ! i"
  let ?p' = "chartData tz now sessions' (Some dr) cmp ! i"
  have i': "i < length (chartData tz now sessions' (Some dr) cmp)"
    using i by (simp only: chartData_length [of tz now sessions' dr cmp sessions])
  have mem: "?p \<in> set (chartData tz now sessions (Some dr) cmp)" using i by simp
  have mem': "?p' \<in> set (chartData tz now sessions' (Some dr) cmp)" using i' by simp
  have d: "date ?p' = date ?p" by (rule chartData_nth_date [OF i])
  have h: "hours ?p = sum_list (map durationInHours (attributed tz dr (date ?p) sessions))"
    by (rule chartData_hours [OF mem])
  have h': "hours ?p' = hours ?p"
    using chartData_hours [OF mem'] d sum_list_attributed_mset [OF perm] h by simp
  have f: "focusLevel ?p
      = focusLevel (fold accumulate (attributed tz dr (date ?p) sessions) (freshPoint (date ?p)))"
    by (rule chartData_score [OF mem])
  from h d h' f show ?thesis by blast
qed

text \<open>
  The theorem at the sessions of two hours and of one hour, in both orders: 3 hours in
  the bucket of 2024-01-01, and the focus level 7 for the order of the first list.
\<close>

theorem chartData_rounded_accumulation_witness:
  "hours (chartData 0 noon [session_2h, session_1h] (Some jan1) False ! 0) = 3
   \<and> date (chartData 0 noon [session_1h, session_2h] (Some jan1) False ! 0) = 19723
   \<and> hours (chartData 0 noon [session_1h, session_2h] (Some jan1) False ! 0) = 3
   \<and> focusLevel (chartData 0 noon [session_2h, session_1h] (Some jan1) False ! 0) = 7"
proof -
  let ?cd = "chartData 0 noon [session_2h, session_1h] (Some jan1) False"
  have perm: "mset [session_1h, session_2h] = mset [session_2h, session_1h]" by simp
  have i: "0 < length ?cd" by code_simp
  have d: "date (?cd ! 0) = 19723" by code_simp
  have h: "sum_list (map durationInHours (attributed 0 jan1 19723 [session_2h, session_1h])) = 3"
    by code_simp
  have f: "focusLevel (fold accumulate (attributed 0 jan1 19723 [session_2h, session_1h])
             (freshPoint 19723)) = 7"
    by code_simp
  from chartData_rounded_accumulation [OF perm i] show ?thesis
    by (simp only: d h f)
qed

text \<open>
  Against claim C3 as stated. One session of 10 seconds inside the window: the hours of
  the buckets add up to 0, the durations of the sessions in the window to \<open>1 / 360\<close> of
  an hour.
\<close>

theorem chartData_total_hours_counterexample:
  "sum_list (map hours (chartData 0 noon [session_10s 5] (Some jan1) False)) = 0
   \<and> sum_list (map exactDurationInHours
        (filter (inRange (setHours_startOfDay 0 (range_start jan1))
                         (setHours_endOfDay 0 (range_end jan1))) [session_10s 5])) = 1 / 360"
  by code_simp

text \<open>
  Claim C3, as the code has it. For a window whose start is not later in its local day
  than its end, the hours of all buckets add up to the rounded durations
  (\<open>durationInHours\<close>, hundredths of an hour) of exactly the sessions whose start
  instant lies between the start of the first day and the end of the last day of the
  window.
\<close>

theorem chartData_total_hours:
  assumes "(range_start dr + tz) mod msPerDay \<le> (range_end dr + tz) mod msPerDay"
  shows "sum_list (map hours (chartData tz now sessions (Some dr) cmp))
       = sum_list (map durationInHours
           (filter (inRange (setHours_startOfDay tz (range_start dr))
                            (setHours_endOfDay tz (range_end dr))) sessions))"
proof -
  let ?W = "filter (inRange (setHours_startOfDay tz (range_start dr))
                            (setHours_endOfDay tz (range_end dr))) sessions"
  let ?lo = "getLocalDateString tz (range_start dr)"
  let ?hi = "getLocalDateString tz (range_end dr)"
  have dates: "map date (chartData tz now sessions (Some dr) cmp) = [?lo..?hi]"
    by (simp only: chartData_dates aligned_days [OF assms])
  have "map hours (chartData tz now sessions (Some dr) cmp)
      = map (\<lambda>p. sum_list (map durationInHours (attributed tz dr (date p) sessions)))
          (chartData tz now sessions (Some dr) cmp)"
    by (rule map_cong [OF refl]) (rule chartData_hours)
  also have "\<dots> = map (\<lambda>k. sum_list (map durationInHours (attributed tz dr k sessions)))
                     (map date (chartData tz now sessions (Some dr) cmp))"
    by (simp add: o_def)
  finally have "sum_list (map hours (chartData tz now sessions (Some dr) cmp))
      = (\<Sum>k \<leftarrow> [?lo..?hi]. sum_list (map durationInHours (filter (\<lambda>s. sessionDay tz s = k) ?W)))"
    by (simp only: dates attributed_def)
  also have "\<dots> = sum_list (map durationInHours ?W)"
    by (rule sum_list_by_key) (auto dest: inRange_days)
  finally show ?thesis .
qed

text \<open>The theorem at three sessions on 2024-01-01, with the comparison turned on.\<close>

theorem chartData_total_hours_witness:
  "(range_start jan1 + 0) mod msPerDay \<le> (range_end jan1 + 0) mod msPerDay
   \<and> sum_list (map hours (chartData 0 noon [session_2h, session_50s, session_1h] (Some jan1) True))
       = 301 / 100"
proof -
  have a: "(range_start jan1 + 0) mod msPerDay \<le> (range_end jan1 + 0) mod msPerDay"
    by code_simp
  have b: "sum_list (map durationInHours
           (filter (inRange (setHours_startOfDay 0 (range_start jan1))
                            (setHours_endOfDay 0 (range_end jan1)))
              [session_2h, session_50s, session_1h])) = 301 / 100"
    by code_simp
  from chartData_total_hours [OF a, of noon "[session_2h, session_50s, session_1h]" True] a b
  show ?thesis by (simp only: simp_thms)
qed

text \<open>
  Against claim C4 as stated: a window from day 1 back to day 0 yields the empty list of
  buckets.
\<close>

theorem chartData_inverted_window_counterexample:
  "chartData 0 noon [session_2h] (Some \<lparr>range_start = 86400000, range_end = 0\<rparr>) False = []"
  by code_simp

text \<open>
  Claim C4, as the code has it. For a window whose start lies after its end,
  \<^verbatim>\<open>chartData\<close> returns the empty list; nothing is raised. The check is made by the
  form: \<^verbatim>\<open>handleCustomRangeSubmit\<close> answers an inverted custom range with an alert and
  leaves the state as it was, and a range that it stores has its start at or before its
  end.
\<close>

theorem chartData_inverted_window:
  assumes "range_end dr < range_start dr"
  shows "chartData tz now sessions (Some dr) cmp = []
       \<and> (setHours_endOfDay tz b < setHours_startOfDay tz a \<longrightarrow>
            handleCustomRangeSubmit tz (Some a) (Some b) st
              = (Some ''Start date must be before end date'', st))
       \<and> (dateRange_state (snd (handleCustomRangeSubmit tz x y st)) = Some dr' \<longrightarrow>
            dateRange_state st = Some dr' \<or> range_start dr' \<le> range_end dr')"
proof -
  have "map date (chartData tz now sessions (Some dr) cmp) = []"
    using assms
    by (cases cmp) (simp_all add: chartData_plain chartData_comparison enumerateDates_empty)
  then have "chartData tz now sessions (Some dr) cmp = []" by simp
  moreover have "dateRange_state (snd (handleCustomRangeSubmit tz x y st)) = Some dr' \<longrightarrow>
            dateRange_state st = Some dr' \<or> range_start dr' \<le> range_end dr'"
    by (auto simp: handleCustomRangeSubmit_def Let_def split: option.splits if_splits)
  ultimately show ?thesis by (simp add: handleCustomRangeSubmit_def Let_def)
qed

text \<open>The theorem at the day 2024-01-01 taken backwards.\<close>

theorem chartData_inverted_window_witness:
  "range_end inverted_window < range_start inverted_window
   \<and> chartData 0 noon [session_2h, session_1h] (Some inverted_window) True = []
   \<and> handleCustomRangeSubmit 0 (Some 1704153600000) (Some 1704067200000) page0
       = (Some ''Start date must be before end date'', page0)"
proof -
  have a: "range_end inverted_window < range_start inverted_window" by code_simp
  have b: "setHours_endOfDay 0 1704067200000 < setHours_startOfDay 0 1704153600000" by code_simp
  from chartData_inverted_window [OF a, of 0 noon "[session_2h, session_1h]" True
      1704067200000 1704153600000 page0] a b
  show ?thesis by (simp only: simp_thms)
qed

text \<open>
  For a window whose start is not later in its local day than its end, the buckets are
  the calendar days from the day of the start to the day of the end, in ascending order.
\<close>

lemma chartData_aligned_dates:
  assumes "(range_start dr + tz) mod msPerDay \<le> (range_end dr + tz) mod msPerDay"
  shows "map date (chartData tz now sessions (Some dr) cmp)
       = [getLocalDateString tz (range_start dr) .. getLocalDateString tz (range_end dr)]"
  by (simp only: chartData_dates aligned_days [OF assms])

text \<open>
  Claim C5 at the window \<open>last7days_tick\<close>, which starts on 2023-12-26 at 12:00:00.001
  and ends on 2024-01-01 at 12:00:00.000. The loop steps from the start instant in whole
  days and stops at the first step that lies after the end instant, so the last day of
  the window has no bucket: six buckets for seven calendar days. The session of that
  day passes the filter and is added to no bucket.
\<close>

theorem chartData_missing_last_day:
  "range_start last7days_tick \<le> range_end last7days_tick
   \<and> getLocalDateString 0 (range_start last7days_tick) = 19717
   \<and> getLocalDateString 0 (range_end last7days_tick) = 19723
   \<and> map date (chartData 0 noon [session_2h] (Some last7days_tick) False)
       = [19717, 19718, 19719, 19720, 19721, 19722]
   \<and> filter (inRange (setHours_startOfDay 0 (range_start last7days_tick))
                     (setHours_endOfDay 0 (range_end last7days_tick))) [session_2h] = [session_2h]
   \<and> sum_list (map hours (chartData 0 noon [session_2h] (Some last7days_tick) False)) = 0"
  by code_simp

text \<open>
  On a window that starts at the beginning of a local day and ends with the last
  millisecond of a local day, the previous period does so too, and moving its bounds to
  the start and the end of their days changes nothing.
\<close>

lemma previous_period_aligned:
  assumes a: "(a + tz) mod msPerDay = 0" and b: "(b + tz) mod msPerDay = msPerDay - 1"
  shows "setHours_startOfDay tz (range_start (getPreviousPeriodDates a b))
           = range_start (getPreviousPeriodDates a b)
       \<and> setHours_endOfDay tz (range_end (getPreviousPeriodDates a b))
           = range_end (getPreviousPeriodDates a b)"
proof -
  have D: "0 < msPerDay" by (simp add: msPerDay_def)
  obtain m where m: "a + tz = m * msPerDay"
    using a by (metis mod_eq_0_iff_dvd dvd_def mult.commute)
  have "b + tz = (b + tz) div msPerDay * msPerDay + (msPerDay - 1)"
    using div_mult_mod_eq [of "b + tz" msPerDay] b by simp
  then obtain n where n: "b + tz = n * msPerDay + (msPerDay - 1)" by blast
  have e: "a - 1 + tz = (msPerDay - 1) + (m - 1) * msPerDay"
    using m by (simp add: algebra_simps)
  have "((msPerDay - 1) + (m - 1) * msPerDay) div msPerDay = (m - 1) + (msPerDay - 1) div msPerDay"
    using D by (simp only: div_mult_self1 [of msPerDay])
  also have "(msPerDay - 1) div msPerDay = 0"
    by (simp add: msPerDay_def)
  finally have de: "(a - 1 + tz) div msPerDay = m - 1" by (simp only: e)
  have e': "setHours_endOfDay tz (a - 1) = a - 1"
    unfolding setHours_endOfDay_def de using m by (simp add: msPerDay_def algebra_simps)
  have st: "a - 1 - (b - a) + tz = (2 * m - n - 1) * msPerDay"
    using m n by (simp add: algebra_simps)
  have ds: "(a - 1 - (b - a) + tz) div msPerDay = 2 * m - n - 1"
    unfolding st using D by simp
  have s': "setHours_startOfDay tz (a - 1 - (b - a)) = a - 1 - (b - a)"
    unfolding setHours_startOfDay_def ds using st by (simp add: algebra_simps)
  from e' s' show ?thesis by (simp add: getPreviousPeriodDates_eq)
qed

text \<open>
  Claim C6 at the window \<open>last7days_noon\<close>, from 2024-01-01 12:00 to 2024-01-07 12:00.
  The previous period runs from 2023-12-26 11:59:59.999 to 2024-01-01 11:59:59.999. The
  session of one hour on 2023-12-26 at 06:00 lies inside the previous period once its
  bounds are moved to the start and the end of their days, but not inside the bounds as
  they are, which is what the filter of the previous period compares with. Moved by the
  distance from the end of the previous period to the end of the window, the session
  falls on 2024-01-01, which has a bucket; but the comparison hours of all seven buckets
  are 0.
\<close>

theorem chartData_previous_period_not_normalised:
  "getPreviousPeriodDates (range_start last7days_noon) (range_end last7days_noon)
     = \<lparr>range_start = 1703591999999, range_end = 1704110399999\<rparr>
   \<and> inRange (setHours_startOfDay 0 1703591999999) (setHours_endOfDay 0 1704110399999)
        session_dec26
   \<and> \<not> inRange 1703591999999 1704110399999 session_dec26
   \<and> durationInHours session_dec26 = 1
   \<and> getLocalDateString 0
        (startTime_seconds session_dec26 * 1000 + (range_end last7days_noon - 1704110399999))
       = 19723
   \<and> map date (chartData 0 noon_jan7 [session_dec26] (Some last7days_noon) True)
       = [19723, 19724, 19725, 19726, 19727, 19728, 19729]
   \<and> map previousHours (chartData 0 noon_jan7 [session_dec26] (Some last7days_noon) True)
       = [0, 0, 0, 0, 0, 0, 0]"
  by code_simp

text \<open>
  Against claim C7 as stated: with no session at all, the bucket of 2024-01-01 carries
  the focus level 0.
\<close>

theorem chartData_empty_bucket_counterexample:
  "map (\<lambda>p. (date p, hours p, focusLevel p)) (chartData 0 noon [] (Some jan1) False)
     = [(19723, 0, 0)]"
  by code_simp

text \<open>
  Claim C7, as the code has it. A bucket to which no session is attributed has 0 hours
  and the focus level 0: the field \<^verbatim>\<open>focusLevel\<close> is a number in every point and is
  never absent.
\<close>

theorem chartData_empty_bucket:
  assumes "p \<in> set (chartData tz now sessions (Some dr) cmp)"
    and "attributed tz dr (date p) sessions = []"
  shows "hours p = 0 \<and> focusLevel p = 0"
proof -
  obtain q pp where q: "q \<in> set (enumerateDates tz (setHours_startOfDay tz now) dr pp (range_start dr) (range_end dr))"
    and dp: "date p = date q"
    and hp: "hours p = hours (fold accumulate (attributed tz dr (date q) sessions) q)"
    and fp: "focusLevel p = focusLevel (fold accumulate (attributed tz dr (date q) sessions) q)"
    using assms(1) by (cases cmp) (auto simp: chartData_plain chartData_comparison)
  from assms(2) dp hp fp enumerateDates_fresh [OF q] show ?thesis by simp
qed

text \<open>The theorem at the second day of a window of two days with one session on the first.\<close>

theorem chartData_empty_bucket_witness:
  "chartData 0 noon [session_2h] (Some jan1_2) False
     = [\<lparr>date = 19723, hours = 2, focusLevel = 8, isToday = True,
         previousHours = 0, previousFocusLevel = 0, comparisonDate = None\<rparr>,
        \<lparr>date = 19724, hours = 0, focusLevel = 0, isToday = False,
         previousHours = 0, previousFocusLevel = 0, comparisonDate = None\<rparr>]
   \<and> attributed 0 jan1_2 19724 [session_2h] = []"
proof -
  let ?p = "\<lparr>date = 19724, hours = 0, focusLevel = 0, isToday = False,
         previousHours = 0, previousFocusLevel = 0, comparisonDate = None\<rparr>"
  have cd: "chartData 0 noon [session_2h] (Some jan1_2) False
     = [\<lparr>date = 19723, hours = 2, focusLevel = 8, isToday = True,
         previousHours = 0, previousFocusLevel = 0, comparisonDate = None\<rparr>, ?p]"
    by code_simp
  then have mem: "?p \<in> set (chartData 0 noon [session_2h] (Some jan1_2) False)"
    by simp
  have e: "attributed 0 jan1_2 (date ?p) [session_2h] = []" by code_simp
  then have e': "attributed 0 jan1_2 19724 [session_2h] = []" by simp
  from chartData_empty_bucket [OF mem e] cd e' show ?thesis by (simp only: simp_thms)
qed

text \<open>
  Claim C9. Window: the single day 2024-01-01 from 00:00:00 to 23:59:59; sessions: two
  hours with focus 8 and one hour with focus 5 on that day. Whatever the clock says,
  \<^verbatim>\<open>chartData\<close> returns one bucket with 3 hours and the focus level 7, with and
  without the comparison.
\<close>

theorem chartData_scenario_A:
  "map (\<lambda>p. (date p, hours p, focusLevel p))
     (chartData 0 now [session_2h, session_1h] (Some jan1) False) = [(19723, 3, 7)]
   \<and> map (\<lambda>p. (date p, hours p, focusLevel p))
     (chartData 0 now [session_2h, session_1h] (Some jan1) True) = [(19723, 3, 7)]"
  by code_simp

end
